theory Spec2Isabelle
  imports Main "HOL-Library.Word"
begin

section \<open>JavaScript values used by the node\<close>

text \<open>
  The node (\<^verbatim>\<open>src/src/node.js\<close>) and its file manager (\<^verbatim>\<open>src/src/manager.js\<close>)
  are embedded as pure functions over explicit state. Sizes, piece indices and ports are
  non-negative integers (every value below \<open>2^53\<close> is exact in a JavaScript number, and
  \<^verbatim>\<open>Math.ceil(a / b)\<close> is then the exact ceiling), \<^verbatim>\<open>null\<close> is \<open>None\<close>, a
  \<^verbatim>\<open>Buffer\<close> is a list of bytes. Base64 and JSON framing are not modelled: a message
  carries its decoded fields. A handler runs as a whole, from its event to its end: what
  other handlers could do while it waits at an \<^verbatim>\<open>await\<close> is not modelled. The clock
  is an argument of the handler that reads it.
\<close>

type_synonym bytes = "8 word list"

text \<open>The results \<^verbatim>\<open>Math.ceil(a / b)\<close> can take: a number, \<^verbatim>\<open>Infinity\<close> or \<^verbatim>\<open>NaN\<close>.\<close>

datatype jsnum = Num nat | PosInf | NaN

text \<open>\<^verbatim>\<open>null\<close> converts to \<open>0\<close> in arithmetic and comparisons.\<close>

definition num :: "nat option \<Rightarrow> nat" where
  "num v = (case v of None \<Rightarrow> 0 | Some n \<Rightarrow> n)"

text \<open>\<^verbatim>\<open>Math.ceil(a / b)\<close>: \<open>0 / 0\<close> is \<^verbatim>\<open>NaN\<close>, \<open>a / 0\<close> is \<^verbatim>\<open>Infinity\<close> for \<open>a > 0\<close>.\<close>

definition ceil_div :: "nat option \<Rightarrow> nat option \<Rightarrow> jsnum" where
  "ceil_div a b =
     (if num b = 0 then (if num a = 0 then NaN else PosInf)
      else Num ((num a + num b - 1) div num b))"

text \<open>Truthiness: \<^verbatim>\<open>null\<close>, \<open>0\<close> and the empty string are falsy; \<^verbatim>\<open>x || null\<close>.\<close>

definition truthy_str :: "string option \<Rightarrow> bool" where
  "truthy_str v = (case v of None \<Rightarrow> False | Some s \<Rightarrow> s \<noteq> [])"

definition or_null_str :: "string option \<Rightarrow> string option" where
  "or_null_str v = (if truthy_str v then v else None)"

definition or_null_num :: "nat option \<Rightarrow> nat option" where
  "or_null_num v = (if num v \<noteq> 0 then v else None)"

text \<open>
  A JavaScript \<^verbatim>\<open>Set\<close> iterates in insertion order: a list without repetitions.
  A \<^verbatim>\<open>Map\<close> likewise: an association list; \<^verbatim>\<open>set\<close> on a present key keeps its place.
\<close>

definition set_add :: "'a list \<Rightarrow> 'a \<Rightarrow> 'a list" where
  "set_add xs x = (if x \<in> set xs then xs else xs @ [x])"

definition set_delete :: "'a list \<Rightarrow> 'a \<Rightarrow> 'a list" where
  "set_delete xs x = removeAll x xs"

definition new_Set :: "'a list \<Rightarrow> 'a list" where
  "new_Set xs = foldl set_add [] xs"

text \<open>
  A \<^verbatim>\<open>Set\<close> holds at most \<open>2^24\<close> entries: \<^verbatim>\<open>add\<close> of a new value to a full set
  throws a \<^verbatim>\<open>RangeError\<close>. \<open>add_all\<close> is a loop of \<^verbatim>\<open>add\<close> over a list of values:
  it gives the set when the loop stopped and whether it stopped by that throw. The limit
  is modelled for the two loops that fill a set with all piece indices; a single
  \<^verbatim>\<open>add\<close> elsewhere is modelled without it.
\<close>

definition set_max :: nat where
  "set_max = 16777216"

fun add_all :: "nat list \<Rightarrow> nat list \<Rightarrow> nat list \<times> bool" where
  "add_all xs [] = (xs, False)"
| "add_all xs (i # is) =
     (if i \<in> set xs then add_all xs is
      else if set_max \<le> length xs then (xs, True)
      else add_all (xs @ [i]) is)"

fun map_set :: "('k \<times> 'v) list \<Rightarrow> 'k \<Rightarrow> 'v \<Rightarrow> ('k \<times> 'v) list" where
  "map_set [] k v = [(k, v)]"
| "map_set ((k', v') # m) k v = (if k' = k then (k, v) # m else (k', v') # map_set m k v)"

definition map_delete :: "('k \<times> 'v) list \<Rightarrow> 'k \<Rightarrow> ('k \<times> 'v) list" where
  "map_delete m k = filter (\<lambda>kv. fst kv \<noteq> k) m"

definition map_has :: "('k \<times> 'v) list \<Rightarrow> 'k \<Rightarrow> bool" where
  "map_has m k = (map_of m k \<noteq> None)"

text \<open>
  String comparison \<^verbatim>\<open>a < b\<close>: by code units, the first difference decides, a proper
  prefix is smaller.
\<close>

fun str_less :: "string \<Rightarrow> string \<Rightarrow> bool" where
  "str_less [] [] = False"
| "str_less [] (y # ys) = True"
| "str_less (x # xs) [] = False"
| "str_less (x # xs) (y # ys) =
     (if (of_char x :: nat) < of_char y then True
      else if (of_char y :: nat) < of_char x then False
      else str_less xs ys)"

section \<open>The file manager (manager.js)\<close>

datatype error = TypeError | RangeError | IOError

datatype fmode = ModeR | ModeWPlus

text \<open>
  \<open>m_fileHandle\<close> is \<open>None\<close> while \<^verbatim>\<open>this.fileHandle\<close> is \<^verbatim>\<open>null\<close>; once open it
  holds the bytes of the file behind the handle.
\<close>

record manager =
  m_pieceSize :: nat
  m_fileHandle :: "bytes option"
  m_fileSize :: "nat option"
  m_mode :: fmode

text \<open>
  The operating system's positional read, write and truncate on the bytes of a file:
  a read fills what the file has from the offset on and leaves the rest of the zeroed
  buffer alone; a write past the end and a growing truncate fill the gap with zeros; a
  write of no bytes leaves the file as it is.
\<close>

definition fh_read :: "bytes \<Rightarrow> nat \<Rightarrow> nat \<Rightarrow> bytes" where
  "fh_read content len offset =
     (let got = take len (drop offset content) in got @ replicate (len - length got) 0)"

definition fh_write :: "bytes \<Rightarrow> bytes \<Rightarrow> nat \<Rightarrow> bytes" where
  "fh_write content buf offset =
     (if buf = [] then content
      else take offset (content @ replicate (offset - length content) 0) @ buf
             @ drop (offset + length buf) content)"

definition fh_truncate :: "bytes \<Rightarrow> nat \<Rightarrow> bytes" where
  "fh_truncate content n = take n (content @ replicate (n - length content) 0)"

text \<open>
  \<^verbatim>\<open>openFile\<close>: \<open>disk\<close> is the file at \<^verbatim>\<open>filePath\<close>, \<open>None\<close> when there is none.
  Mode \<^verbatim>\<open>'r'\<close> fails on a missing file and records the size; \<^verbatim>\<open>'w+'\<close> creates
  or truncates the file.
\<close>

definition openFile :: "manager \<Rightarrow> bytes option \<Rightarrow> error + manager" where
  "openFile m disk =
     (case m_mode m of
        ModeR \<Rightarrow>
          (case disk of
             None \<Rightarrow> Inl IOError
           | Some content \<Rightarrow>
               Inr (m\<lparr>m_fileHandle := Some content, m_fileSize := Some (length content)\<rparr>))
      | ModeWPlus \<Rightarrow> Inr (m\<lparr>m_fileHandle := Some [], m_fileSize := Some 0\<rparr>))"

text \<open>
  \<^verbatim>\<open>setSize\<close> assigns \<^verbatim>\<open>this.fileSize\<close> first, so the manager changes even when
  \<^verbatim>\<open>truncate\<close> then fails: on a \<^verbatim>\<open>null\<close> handle, a \<^verbatim>\<open>null\<close> size, or a
  read-only handle.
\<close>

definition setSize :: "manager \<Rightarrow> nat option \<Rightarrow> manager \<times> error option" where
  "setSize m sz =
     (let m1 = m\<lparr>m_fileSize := sz\<rparr> in
      case m_fileHandle m1 of
        None \<Rightarrow> (m1, Some TypeError)
      | Some content \<Rightarrow>
          (case sz of
             None \<Rightarrow> (m1, Some TypeError)
           | Some n \<Rightarrow>
               if m_mode m1 = ModeR then (m1, Some IOError)
               else (m1\<lparr>m_fileHandle := Some (fh_truncate content n)\<rparr>, None)))"

text \<open>
  \<^verbatim>\<open>readPiece\<close>: \<^verbatim>\<open>Buffer.alloc(length)\<close> throws on a negative length, then
  \<^verbatim>\<open>this.fileHandle.read\<close> throws on a \<^verbatim>\<open>null\<close> handle. There is no other check
  of the index.
\<close>

definition readPiece :: "manager \<Rightarrow> nat \<Rightarrow> error + bytes" where
  "readPiece m index =
     (let offset = int index * int (m_pieceSize m);
          length0 = int (m_pieceSize m);
          len = (if offset + length0 > int (num (m_fileSize m))
                 then int (num (m_fileSize m)) - offset else length0)
      in if len < 0 then Inl RangeError
         else case m_fileHandle m of
                None \<Rightarrow> Inl TypeError
              | Some content \<Rightarrow> Inr (fh_read content (nat len) (nat offset)))"

text \<open>
  \<^verbatim>\<open>writePiece\<close>: no check of the index or of the buffer's length. The call fails on a
  \<^verbatim>\<open>null\<close> handle; a write of an empty buffer returns before the file is touched; a
  write of bytes fails on a handle opened for reading.
\<close>

definition writePiece :: "manager \<Rightarrow> nat \<Rightarrow> bytes \<Rightarrow> error + manager" where
  "writePiece m index dataBuffer =
     (let offset = index * m_pieceSize m in
      case m_fileHandle m of
        None \<Rightarrow> Inl TypeError
      | Some content \<Rightarrow>
          if dataBuffer \<noteq> [] \<and> m_mode m = ModeR then Inl IOError
          else Inr (m\<lparr>m_fileHandle := Some (fh_write content dataBuffer offset)\<rparr>))"

section \<open>Sockets, peers and messages (node.js)\<close>

text \<open>
  Socket objects are shared between the handlers and the peer records, so they live in a
  store indexed by a socket number; a peer record refers to its socket by number.
\<close>

type_synonym sockid = nat

record sock =
  peerId :: "string option"
  isOutgoing :: bool
  remoteAddress :: string

record peerInfo =
  p_id :: string
  p_host :: string
  p_port :: nat
  p_socket :: "sockid option"
  p_availablePieces :: "nat list"
  p_busy :: bool
  p_handshakeSent :: bool
  p_handshakeReceived :: bool

record handshake =
  h_id :: string
  h_fileName :: "string option"
  h_fileSize :: "nat option"
  h_fileHash :: "string option"
  h_pieceSize :: "nat option"
  h_port :: nat

record peerAddr =
  a_id :: string
  a_host :: string
  a_port :: nat

datatype message =
    Handshake handshake
  | Bitfield "nat list"
  | Request nat
  | Piece nat bytes
  | Have nat
  | Peers "peerAddr list"

text \<open>
  What the node does to the outside, in order: \<^verbatim>\<open>socket.write\<close>, \<^verbatim>\<open>socket.end\<close>
  and \<^verbatim>\<open>net.connect\<close>.
\<close>

datatype action = Write sockid message | End sockid | Connect string nat

record node =
  port :: nat
  fileName :: "string option"
  fileSize :: "nat option"
  fileHash :: "string option"
  pieceSize :: "nat option"
  numPieces :: "jsnum option"
  nid :: string
  knownPeers :: "(string \<times> peerInfo) list"
  fileManager :: manager
  havePieces :: "nat list"
  missingPieces :: "nat list"
  pendingPieces :: "nat list"
  progressInterval :: bool
  startTime :: "nat option"
  isSeed :: bool
  bytesDownloaded :: "nat option"
  sockets :: "sockid \<Rightarrow> sock"
  io :: "action list"

text \<open>
  \<open>nid\<close> is \<^verbatim>\<open>this.id\<close>, \<open>progressInterval\<close> tells whether the progress timer is
  set, \<open>sockets\<close> is the store of the socket objects and \<open>io\<close> the actions so far.
  The listener (\<^verbatim>\<open>server\<close>, \<^verbatim>\<open>started\<close>) and \<^verbatim>\<open>filePath\<close> play no part in the
  handlers and are left out.
\<close>

text \<open>
  How a handler ends: it returns, it throws after the changes made so far, or the
  process exits.
\<close>

datatype outcome = Returns node | Throws node | Exits

definition state_of :: "outcome \<Rightarrow> node option" where
  "state_of r = (case r of Returns s \<Rightarrow> Some s | Throws s \<Rightarrow> Some s | Exits \<Rightarrow> None)"

text \<open>\<^verbatim>\<open>knownPeers.get(k).field = v\<close>: the record under a key is changed in place.\<close>

fun map_modify :: "('k \<times> 'v) list \<Rightarrow> 'k \<Rightarrow> ('v \<Rightarrow> 'v) \<Rightarrow> ('k \<times> 'v) list" where
  "map_modify [] k f = []"
| "map_modify ((k', v) # m) k f =
     (if k' = k then (k', f v) # m else (k', v) # map_modify m k f)"

text \<open>The guard \<^verbatim>\<open>socket.peerId && this.knownPeers.has(socket.peerId)\<close>.\<close>

definition known_peerId :: "(string \<times> peerInfo) list \<Rightarrow> sock \<Rightarrow> string option" where
  "known_peerId peers socket =
     (case peerId socket of
        None \<Rightarrow> None
      | Some pid \<Rightarrow> if pid \<noteq> [] \<and> map_has peers pid then Some pid else None)"

text \<open>
  The loop \<^verbatim>\<open>for (let i = 0; i < n; i++) set.add(i)\<close>. For a number it runs over the
  indices below it; for \<^verbatim>\<open>NaN\<close> it does not run; for \<^verbatim>\<open>Infinity\<close> it cannot end
  and the set cannot hold more than \<open>set_max\<close> values, so it stops by the throw, at the
  latest at index \<open>set_max\<close>.
\<close>

definition fill_set :: "nat list \<Rightarrow> jsnum \<Rightarrow> nat list \<times> bool" where
  "fill_set xs n =
     (case n of
        Num k \<Rightarrow> add_all xs [0..<k]
      | NaN \<Rightarrow> (xs, False)
      | PosInf \<Rightarrow> (fst (add_all xs [0..<Suc set_max]), True))"

section \<open>Sending\<close>

definition sendHandshake :: "node \<Rightarrow> sockid \<Rightarrow> node" where
  "sendHandshake s k =
     (let handshakeMsg = \<lparr>h_id = nid s, h_fileName = fileName s, h_fileSize = fileSize s,
            h_fileHash = fileHash s, h_pieceSize = pieceSize s, h_port = port s\<rparr>;
          s1 = s\<lparr>io := io s @ [Write k (Handshake handshakeMsg)]\<rparr>
      in case known_peerId (knownPeers s1) (sockets s1 k) of
           None \<Rightarrow> s1
         | Some pid \<Rightarrow>
             s1\<lparr>knownPeers := map_modify (knownPeers s1) pid (\<lambda>p. p\<lparr>p_handshakeSent := True\<rparr>)\<rparr>)"

definition sendBitfield :: "node \<Rightarrow> sockid \<Rightarrow> node" where
  "sendBitfield s k = s\<lparr>io := io s @ [Write k (Bitfield (havePieces s))]\<rparr>"

definition sendRequest :: "node \<Rightarrow> sockid option \<Rightarrow> nat \<Rightarrow> node" where
  "sendRequest s socket index =
     (case socket of
        None \<Rightarrow> s
      | Some k \<Rightarrow>
          (let s1 = s\<lparr>pendingPieces := set_add (pendingPieces s) index\<rparr>;
               s2 = (case known_peerId (knownPeers s1) (sockets s1 k) of
                       None \<Rightarrow> s1
                     | Some pid \<Rightarrow>
                         s1\<lparr>knownPeers :=
                              map_modify (knownPeers s1) pid (\<lambda>p. p\<lparr>p_busy := True\<rparr>)\<rparr>)
           in s2\<lparr>io := io s2 @ [Write k (Request index)]\<rparr>))"

section \<open>The scheduler\<close>

text \<open>
  One pass of the outer loop of \<^verbatim>\<open>_scheduleRequests\<close> for the peer under \<open>pid\<close>. The
  record is looked up when its turn comes: an earlier pass may have set its busy flag.
\<close>

definition schedule_peer :: "node \<Rightarrow> string \<Rightarrow> node" where
  "schedule_peer s pid =
     (case map_of (knownPeers s) pid of
        None \<Rightarrow> s
      | Some info \<Rightarrow>
          (case p_socket info of
             None \<Rightarrow> s
           | Some k \<Rightarrow>
               if p_busy info then s
               else (case find (\<lambda>pieceIndex. pieceIndex \<in> set (missingPieces s)
                                  \<and> pieceIndex \<notin> set (pendingPieces s))
                            (p_availablePieces info) of
                       None \<Rightarrow> s
                     | Some pieceIndex \<Rightarrow> sendRequest s (Some k) pieceIndex)))"

definition scheduleRequests :: "node \<Rightarrow> node" where
  "scheduleRequests s =
     (if \<not> truthy_str (fileHash s) \<or> missingPieces s = [] then s
      else foldl schedule_peer s (map fst (knownPeers s)))"

section \<open>Piece exchange\<close>

definition handleBitfield :: "node \<Rightarrow> sockid \<Rightarrow> nat list \<Rightarrow> node" where
  "handleBitfield s k pieces =
     (case known_peerId (knownPeers s) (sockets s k) of
        None \<Rightarrow> s
      | Some pid \<Rightarrow>
          scheduleRequests
            (s\<lparr>knownPeers :=
                 map_modify (knownPeers s) pid (\<lambda>p. p\<lparr>p_availablePieces := new_Set pieces\<rparr>)\<rparr>))"

definition handleRequest :: "node \<Rightarrow> sockid \<Rightarrow> nat \<Rightarrow> node" where
  "handleRequest s k index =
     (if index \<notin> set (havePieces s) then s
      else case readPiece (fileManager s) index of
             Inl err \<Rightarrow> s
           | Inr buffer \<Rightarrow> s\<lparr>io := io s @ [Write k (Piece index buffer)]\<rparr>)"

text \<open>
  The \<^verbatim>\<open>have\<close> messages of lines 357-365, in the order of the peer map; \<open>sender\<close> is
  \<^verbatim>\<open>socket.peerId\<close>.
\<close>

definition have_broadcast ::
  "(string \<times> peerInfo) list \<Rightarrow> string option \<Rightarrow> nat \<Rightarrow> action list" where
  "have_broadcast peers sender index =
     concat (map (\<lambda>(pid, peer).
                    case p_socket peer of
                      None \<Rightarrow> []
                    | Some k' \<Rightarrow> if Some pid \<noteq> sender then [Write k' (Have index)] else [])
                 peers)"

text \<open>Lines 345-365 of \<^verbatim>\<open>_handlePiece\<close>, after the write succeeded.\<close>

definition piece_received :: "node \<Rightarrow> sockid \<Rightarrow> nat \<Rightarrow> bytes \<Rightarrow> node" where
  "piece_received s k index dataBuffer =
     (let s1 = s\<lparr>havePieces := set_add (havePieces s) index,
                 missingPieces := set_delete (missingPieces s) index,
                 pendingPieces := set_delete (pendingPieces s) index\<rparr>;
          s2 = (case known_peerId (knownPeers s1) (sockets s1 k) of
                  None \<Rightarrow> s1
                | Some pid \<Rightarrow>
                    s1\<lparr>knownPeers :=
                         map_modify (knownPeers s1) pid (\<lambda>p. p\<lparr>p_busy := False\<rparr>)\<rparr>);
          s3 = s2\<lparr>bytesDownloaded := Some (num (bytesDownloaded s2) + length dataBuffer)\<rparr>
      in s3\<lparr>io := io s3 @ have_broadcast (knownPeers s3) (peerId (sockets s3 k)) index\<rparr>)"

text \<open>
  Lines 367-397: completion, or the next round of requests. The hash comparison at
  completion only logs.
\<close>

definition piece_finish :: "node \<Rightarrow> node" where
  "piece_finish s =
     (if missingPieces s = [] then s\<lparr>progressInterval := False, isSeed := True\<rparr>
      else scheduleRequests s)"

definition handlePiece :: "node \<Rightarrow> sockid \<Rightarrow> nat \<Rightarrow> bytes \<Rightarrow> node" where
  "handlePiece s k index dataBuffer =
     (case writePiece (fileManager s) index dataBuffer of
        Inl err \<Rightarrow> s
      | Inr fm \<Rightarrow> piece_finish (piece_received (s\<lparr>fileManager := fm\<rparr>) k index dataBuffer))"

definition handleHave :: "node \<Rightarrow> sockid \<Rightarrow> nat \<Rightarrow> node" where
  "handleHave s k index =
     (case known_peerId (knownPeers s) (sockets s k) of
        None \<Rightarrow> s
      | Some pid \<Rightarrow>
          (let s1 = s\<lparr>knownPeers :=
                        map_modify (knownPeers s) pid
                          (\<lambda>p. p\<lparr>p_availablePieces := set_add (p_availablePieces p) index\<rparr>)\<rparr>;
               busy = (case map_of (knownPeers s1) pid of None \<Rightarrow> False | Some p \<Rightarrow> p_busy p)
           in if index \<in> set (missingPieces s1) \<and> index \<notin> set (pendingPieces s1) \<and> \<not> busy
              then scheduleRequests s1 else s1))"

section \<open>Peer discovery\<close>

text \<open>
  \<^verbatim>\<open>_shouldInitiateConnection\<close>: \<^verbatim>\<open>otherPeerId && this.id && this.id > otherPeerId\<close>,
  read as a condition.
\<close>

definition shouldInitiateConnection :: "string \<Rightarrow> string \<Rightarrow> bool" where
  "shouldInitiateConnection self_id otherPeerId =
     (otherPeerId \<noteq> [] \<and> self_id \<noteq> [] \<and> str_less otherPeerId self_id)"

definition new_peer :: "string \<Rightarrow> string \<Rightarrow> nat \<Rightarrow> sockid option \<Rightarrow> peerInfo" where
  "new_peer pid host prt socket =
     \<lparr>p_id = pid, p_host = host, p_port = prt, p_socket = socket, p_availablePieces = [],
      p_busy = False, p_handshakeSent = False, p_handshakeReceived = False\<rparr>"

text \<open>One pass of the loop of \<^verbatim>\<open>_handlePeers\<close>.\<close>

definition discover_peer :: "node \<Rightarrow> peerAddr \<Rightarrow> node" where
  "discover_peer s peer =
     (if a_id peer = nid s then s
      else if map_has (knownPeers s) (a_id peer) then s
      else
        (let s1 = s\<lparr>knownPeers :=
                      map_set (knownPeers s) (a_id peer)
                        (new_peer (a_id peer) (a_host peer) (a_port peer) None)\<rparr>
         in if shouldInitiateConnection (nid s1) (a_id peer)
            then s1\<lparr>io := io s1 @ [Connect (a_host peer) (a_port peer)]\<rparr>
            else s1))"

definition handlePeers :: "node \<Rightarrow> sockid \<Rightarrow> peerAddr list \<Rightarrow> node" where
  "handlePeers s k peersList = foldl discover_peer s peersList"

section \<open>The handshake\<close>

text \<open>Lines 201-212: the peer record is created or re-bound, the socket gets the id.\<close>

definition upsert_peer :: "node \<Rightarrow> sockid \<Rightarrow> string \<Rightarrow> nat \<Rightarrow> node" where
  "upsert_peer s k remoteId remotePort =
     (let s1 = (if map_has (knownPeers s) remoteId
                then s\<lparr>knownPeers :=
                         map_modify (knownPeers s) remoteId (\<lambda>p. p\<lparr>p_socket := Some k\<rparr>)\<rparr>
                else s\<lparr>knownPeers :=
                         map_set (knownPeers s) remoteId
                           (new_peer remoteId (remoteAddress (sockets s k)) remotePort (Some k))\<rparr>)
      in s1\<lparr>sockets := (sockets s1)(k := (sockets s1 k)\<lparr>peerId := Some remoteId\<rparr>)\<rparr>)"

text \<open>\<^verbatim>\<open>socket.end(); this.knownPeers.delete(remoteId); return;\<close>\<close>

definition drop_peer :: "node \<Rightarrow> sockid \<Rightarrow> string \<Rightarrow> node" where
  "drop_peer s k remoteId =
     s\<lparr>io := io s @ [End k], knownPeers := map_delete (knownPeers s) remoteId\<rparr>"

text \<open>The peers another peer is told about: lines 274-279.\<close>

definition otherPeers :: "node \<Rightarrow> string \<Rightarrow> peerAddr list" where
  "otherPeers s remoteId =
     concat (map (\<lambda>(pid, pinfo).
                    case p_socket pinfo of
                      None \<Rightarrow> []
                    | Some k' \<Rightarrow>
                        if pid \<noteq> remoteId
                        then [\<lparr>a_id = pid,
                               a_host = (if p_host pinfo \<noteq> [] then p_host pinfo
                                         else remoteAddress (sockets s k')),
                               a_port = p_port pinfo\<rparr>]
                        else [])
                 (knownPeers s))"

text \<open>The announcement of the new peer to the connected others: lines 288-294.\<close>

definition announce_peer :: "node \<Rightarrow> sockid \<Rightarrow> string \<Rightarrow> nat \<Rightarrow> action list" where
  "announce_peer s k remoteId remotePort =
     concat (map (\<lambda>(pid, pinfo).
                    case p_socket pinfo of
                      None \<Rightarrow> []
                    | Some k' \<Rightarrow>
                        if pid \<noteq> remoteId
                        then [Write k' (Peers [\<lparr>a_id = remoteId,
                                                a_host = remoteAddress (sockets s k),
                                                a_port = remotePort\<rparr>])]
                        else [])
                 (knownPeers s))"

text \<open>Lines 256-295: the reply, the bitfield and the peer exchange.\<close>

definition handshake_reply :: "node \<Rightarrow> sockid \<Rightarrow> string \<Rightarrow> nat \<Rightarrow> node" where
  "handshake_reply s k remoteId remotePort =
     (let sent = (case map_of (knownPeers s) remoteId of
                    None \<Rightarrow> False
                  | Some p \<Rightarrow> p_handshakeSent p);
          s1 = (if \<not> isOutgoing (sockets s k) \<and> \<not> sent then sendHandshake s k else s);
          s2 = s1\<lparr>knownPeers :=
                    map_modify (knownPeers s1) remoteId (\<lambda>p. p\<lparr>p_handshakeReceived := True\<rparr>)\<rparr>;
          s3 = (if havePieces s2 \<noteq> [] then sendBitfield s2 k else s2)
      in if \<not> isOutgoing (sockets s3 k)
         then (let others = otherPeers s3 remoteId;
                   s4 = (if others \<noteq> [] then s3\<lparr>io := io s3 @ [Write k (Peers others)]\<rparr>
                         else s3)
               in s4\<lparr>io := io s4 @ announce_peer s4 k remoteId remotePort\<rparr>)
         else s3)"

text \<open>
  Lines 227-246: the leecher adopts what the handshake carries. When the loop that
  fills \<^verbatim>\<open>missingPieces\<close> throws, the handler ends there: the four fields and
  \<^verbatim>\<open>numPieces\<close> are set, \<^verbatim>\<open>havePieces\<close> is not yet reset and \<^verbatim>\<open>setSize\<close> is not
  called. A failing \<^verbatim>\<open>setSize\<close> rejects the handler after all of these.
\<close>

definition adopt_metadata ::
  "node \<Rightarrow> sockid \<Rightarrow> nat \<Rightarrow> handshake \<Rightarrow> outcome" where
  "adopt_metadata s k now message =
     (let s1 = s\<lparr>fileName := or_null_str (h_fileName message),
                 fileSize := or_null_num (h_fileSize message),
                 fileHash := or_null_str (h_fileHash message),
                 pieceSize := or_null_num (h_pieceSize message)\<rparr>;
          n = ceil_div (fileSize s1) (pieceSize s1);
          s2 = s1\<lparr>numPieces := Some n\<rparr>;
          filled = fill_set (missingPieces s2) n;
          s2' = s2\<lparr>missingPieces := fst filled\<rparr>
      in if snd filled then Throws s2'
         else
           (let s3 = s2'\<lparr>havePieces := []\<rparr>;
                r = setSize (fileManager s3) (fileSize s3);
                s4 = s3\<lparr>fileManager := fst r\<rparr>
            in case snd r of
                 Some err \<Rightarrow> Throws s4
               | None \<Rightarrow>
                   Returns (handshake_reply (s4\<lparr>startTime := Some now, progressInterval := True\<rparr>)
                              k (h_id message) (h_port message))))"

definition handleHandshake :: "node \<Rightarrow> sockid \<Rightarrow> nat \<Rightarrow> handshake \<Rightarrow> outcome" where
  "handleHandshake s k now message =
     (let remoteId = h_id message;
          remoteFileHash = or_null_str (h_fileHash message)
      in if remoteId = nid s then Returns s
         else
           (let s1 = upsert_peer s k remoteId (h_port message)
            in if isSeed s1
               then (if truthy_str remoteFileHash \<and> truthy_str (fileHash s1)
                        \<and> remoteFileHash \<noteq> fileHash s1
                     then Returns (drop_peer s1 k remoteId)
                     else Returns (handshake_reply s1 k remoteId (h_port message)))
               else (if truthy_str remoteFileHash then adopt_metadata s1 k now message
                     else Returns (drop_peer s1 k remoteId))))"

section \<open>Connections\<close>

definition onAccept :: "node \<Rightarrow> sockid \<Rightarrow> string \<Rightarrow> node" where
  "onAccept s k addr =
     s\<lparr>sockets := (sockets s)(k := \<lparr>peerId = None, isOutgoing = False, remoteAddress = addr\<rparr>)\<rparr>"

definition onConnect :: "node \<Rightarrow> sockid \<Rightarrow> string \<Rightarrow> node" where
  "onConnect s k addr =
     sendHandshake
       (s\<lparr>sockets := (sockets s)(k := \<lparr>peerId = None, isOutgoing = True, remoteAddress = addr\<rparr>)\<rparr>)
       k"

text \<open>The \<^verbatim>\<open>close\<close> handler of lines 137-153.\<close>

definition onClose :: "node \<Rightarrow> sockid \<Rightarrow> node" where
  "onClose s k =
     (let s1 = (case known_peerId (knownPeers s) (sockets s k) of
                  None \<Rightarrow> s
                | Some pid \<Rightarrow>
                    s\<lparr>knownPeers :=
                        map_modify (knownPeers s) pid (\<lambda>p. p\<lparr>p_socket := None, p_busy := False\<rparr>)\<rparr>)
      in scheduleRequests (s1\<lparr>pendingPieces := []\<rparr>))"

definition handleMessage :: "node \<Rightarrow> sockid \<Rightarrow> nat \<Rightarrow> message \<Rightarrow> outcome" where
  "handleMessage s k now msg =
     (case msg of
        Handshake h \<Rightarrow> handleHandshake s k now h
      | Bitfield pieces \<Rightarrow> Returns (handleBitfield s k pieces)
      | Request index \<Rightarrow> Returns (handleRequest s k index)
      | Piece index dataBuffer \<Rightarrow> Returns (handlePiece s k index dataBuffer)
      | Have index \<Rightarrow> Returns (handleHave s k index)
      | Peers peersList \<Rightarrow> Returns (handlePeers s k peersList))"

section \<open>Startup\<close>

text \<open>
  The constructor: \<open>myId\<close> is the random id, \<open>name\<close> the base name of the path,
  \<open>present\<close> the answer of \<^verbatim>\<open>fs.existsSync\<close>. No socket exists yet.
\<close>

definition no_sock :: sock where
  "no_sock = \<lparr>peerId = None, isOutgoing = False, remoteAddress = []\<rparr>"

definition constructor :: "nat \<Rightarrow> string \<Rightarrow> string \<Rightarrow> bool \<Rightarrow> node" where
  "constructor prt myId name present =
     \<lparr>port = prt, fileName = Some name, fileSize = None, fileHash = None,
      pieceSize = Some 65536, numPieces = None, nid = myId, knownPeers = [],
      fileManager = \<lparr>m_pieceSize = 65536, m_fileHandle = None, m_fileSize = Some 0,
                     m_mode = (if present then ModeR else ModeWPlus)\<rparr>,
      havePieces = [], missingPieces = [], pendingPieces = [], progressInterval = False,
      startTime = None, isSeed = present, bytesDownloaded = None,
      sockets = (\<lambda>k. no_sock), io = []\<rparr>"

text \<open>
  The continuation of \<^verbatim>\<open>openFile()\<close> in the constructor (lines 40-66); \<open>sha1\<close> is
  the hash \<^verbatim>\<open>computeHash\<close> takes of the file. A failing open, and a throw in the
  continuation, end in \<^verbatim>\<open>process.exit(1)\<close>.
\<close>

definition startup :: "(bytes \<Rightarrow> string) \<Rightarrow> node \<Rightarrow> bytes option \<Rightarrow> outcome" where
  "startup sha1 s disk =
     (case openFile (fileManager s) disk of
        Inl err \<Rightarrow> Exits
      | Inr fm \<Rightarrow>
          (let s1 = s\<lparr>fileManager := fm\<rparr>
           in if isSeed s1
              then (let s2 = s1\<lparr>fileSize := m_fileSize (fileManager s1)\<rparr>;
                        s3 = (if num (fileSize s2) < num (pieceSize s2)
                              then s2\<lparr>pieceSize := fileSize s2,
                                      fileManager :=
                                        (fileManager s2)\<lparr>m_pieceSize := num (fileSize s2)\<rparr>\<rparr>
                              else s2);
                        n = ceil_div (fileSize s3) (pieceSize s3);
                        s4 = s3\<lparr>numPieces := Some n\<rparr>;
                        filled = fill_set (havePieces s4) n
                    in if snd filled then Exits
                       else Returns
                              (s4\<lparr>havePieces := fst filled,
                                  fileHash :=
                                    (case m_fileHandle (fileManager s4) of
                                       None \<Rightarrow> None
                                     | Some content \<Rightarrow> Some (sha1 content))\<rparr>))
              else Returns s1))"

section \<open>Runs of a node\<close>

datatype event =
    Accepted sockid string
  | Connected sockid string
  | Received sockid nat message
  | Closed sockid

definition step :: "node \<Rightarrow> event \<Rightarrow> outcome" where
  "step s e =
     (case e of
        Accepted k addr \<Rightarrow> Returns (onAccept s k addr)
      | Connected k addr \<Rightarrow> Returns (onConnect s k addr)
      | Received k now msg \<Rightarrow> handleMessage s k now msg
      | Closed k \<Rightarrow> Returns (onClose s k))"

text \<open>
  The states a node can be in: the constructor's, the one after the file opened, and
  every state an event leaves behind, also when its handler threw.
\<close>

inductive reachable :: "(bytes \<Rightarrow> string) \<Rightarrow> node \<Rightarrow> bool" for sha1 where
  r_new: "reachable sha1 (constructor prt myId name present)"
| r_open: "state_of (startup sha1 (constructor prt myId name present) disk) = Some s
           \<Longrightarrow> reachable sha1 s"
| r_step: "reachable sha1 s \<Longrightarrow> state_of (step s e) = Some s' \<Longrightarrow> reachable sha1 s'"

text \<open>A run: the events one after another, as long as the handlers leave a state.\<close>

fun run :: "node \<Rightarrow> event list \<Rightarrow> node option" where
  "run s [] = Some s"
| "run s (e # es) = (case state_of (step s e) of None \<Rightarrow> None | Some s' \<Rightarrow> run s' es)"

section \<open>What a handler leaves alone\<close>

text \<open>
  The scheduler keeps the pieces held and missing, the file and the byte count; it only
  adds missing pieces to the pending ones and appends to the output.
\<close>

definition sched_frame :: "node \<Rightarrow> node \<Rightarrow> bool" where
  "sched_frame s t =
     (havePieces t = havePieces s \<and> missingPieces t = missingPieces s
      \<and> fileManager t = fileManager s \<and> bytesDownloaded t = bytesDownloaded s
      \<and> set (pendingPieces s) \<subseteq> set (pendingPieces t)
      \<and> set (pendingPieces t) \<subseteq> set (pendingPieces s) \<union> set (missingPieces s)
      \<and> (\<exists>rest. io t = io s @ rest))"

text \<open>The metadata, the piece sets and the file are the same in both states.\<close>

definition meta_frame :: "node \<Rightarrow> node \<Rightarrow> bool" where
  "meta_frame s t =
     (fileName t = fileName s \<and> fileSize t = fileSize s \<and> fileHash t = fileHash s
      \<and> pieceSize t = pieceSize s \<and> numPieces t = numPieces s
      \<and> havePieces t = havePieces s \<and> missingPieces t = missingPieces s
      \<and> pendingPieces t = pendingPieces s \<and> fileManager t = fileManager s
      \<and> isSeed t = isSeed s \<and> bytesDownloaded t = bytesDownloaded s \<and> nid t = nid s)"

definition pending_inv :: "node \<Rightarrow> bool" where
  "pending_inv s = (set (pendingPieces s) \<subseteq> set (missingPieces s))"

section \<open>States and messages used in the examples\<close>

definition five_bytes :: manager where
  "five_bytes = \<lparr>m_pieceSize = 2, m_fileHandle = Some [1, 2, 3, 4, 5], m_fileSize = Some 5,
                  m_mode = ModeR\<rparr>"

definition four_bytes :: manager where
  "four_bytes = \<lparr>m_pieceSize = 2, m_fileHandle = Some [1, 2, 3, 4], m_fileSize = Some 4,
                  m_mode = ModeR\<rparr>"

text \<open>Handshakes: of a seed of a 4-byte file in pieces of 2, and of a peer with another file.\<close>

definition seed_hs :: handshake where
  "seed_hs = \<lparr>h_id = ''ffffffffffffffff'', h_fileName = Some ''f.bin'', h_fileSize = Some 4,
              h_fileHash = Some ''h1'', h_pieceSize = Some 2, h_port = 6881\<rparr>"

definition other_hs :: handshake where
  "other_hs = \<lparr>h_id = ''cccccccccccccccc'', h_fileName = Some ''g.bin'', h_fileSize = Some 6,
               h_fileHash = Some ''h2'', h_pieceSize = Some 2, h_port = 6883\<rparr>"


text \<open>A leecher: as constructed, and once its file is open.\<close>

definition leecher_new :: node where
  "leecher_new = constructor 6882 ''00000000000000aa'' ''out.bin'' False"

definition leecher_open :: node where
  "leecher_open =
     leecher_new\<lparr>fileManager := \<lparr>m_pieceSize = 65536, m_fileHandle = Some [],
                                   m_fileSize = Some 0, m_mode = ModeWPlus\<rparr>\<rparr>"

text \<open>
  The leecher dials the seed, gets its handshake and its bitfield, and the first piece.
\<close>

definition download_events :: "event list" where
  "download_events =
     [Connected 0 ''10.0.0.1'', Received 0 100 (Handshake seed_hs),
      Received 0 101 (Bitfield [0, 1]), Received 0 102 (Piece 0 [1, 2])]"

text \<open>The state of the leecher after these events: piece 0 held, piece 1 requested.\<close>

definition downloading :: node where
  "downloading =
     \<lparr>port = 6882, fileName = Some ''f.bin'', fileSize = Some 4, fileHash = Some ''h1'',
      pieceSize = Some 2, numPieces = Some (Num 2), nid = ''00000000000000aa'',
      knownPeers =
        [(''ffffffffffffffff'',
          \<lparr>p_id = ''ffffffffffffffff'', p_host = ''10.0.0.1'', p_port = 6881,
           p_socket = Some 0, p_availablePieces = [0, 1], p_busy = True,
           p_handshakeSent = False, p_handshakeReceived = True\<rparr>)],
      fileManager = \<lparr>m_pieceSize = 65536, m_fileHandle = Some [1, 2, 0, 0],
                     m_fileSize = Some 4, m_mode = ModeWPlus\<rparr>,
      havePieces = [0], missingPieces = [1], pendingPieces = [1], progressInterval = True,
      startTime = Some 100, isSeed = False, bytesDownloaded = Some 2,
      sockets = (\<lambda>k. no_sock)
        (0 := \<lparr>peerId = Some ''ffffffffffffffff'', isOutgoing = True,
               remoteAddress = ''10.0.0.1''\<rparr>),
      io = [Write 0 (Handshake \<lparr>h_id = ''00000000000000aa'', h_fileName = Some ''out.bin'',
                                 h_fileSize = None, h_fileHash = None,
                                 h_pieceSize = Some 65536, h_port = 6882\<rparr>),
            Write 0 (Request 0), Write 0 (Request 1)]\<rparr>"

text \<open>
  The same download with a second peer: it connects and sends the same metadata before
  the bitfield of the seed arrives.
\<close>

definition two_peer_events :: "event list" where
  "two_peer_events =
     [Connected 0 ''10.0.0.1'', Received 0 100 (Handshake seed_hs),
      Accepted 1 ''10.0.0.3'',
      Received 1 103 (Handshake (seed_hs\<lparr>h_id := ''cccccccccccccccc'', h_port := 6883\<rparr>)),
      Received 0 104 (Bitfield [0, 1]), Received 0 105 (Piece 0 [1, 2])]"

definition two_peers :: node where
  "two_peers =
     downloading\<lparr>knownPeers :=
       knownPeers downloading
         @ [(''cccccccccccccccc'',
             \<lparr>p_id = ''cccccccccccccccc'', p_host = ''10.0.0.3'', p_port = 6883,
              p_socket = Some 1, p_availablePieces = [], p_busy = False,
              p_handshakeSent = True, p_handshakeReceived = True\<rparr>)],
       startTime := Some 103,
       sockets := (sockets downloading)
         (1 := \<lparr>peerId = Some ''cccccccccccccccc'', isOutgoing = False,
                remoteAddress = ''10.0.0.3''\<rparr>),
       io := [Write 0 (Handshake \<lparr>h_id = ''00000000000000aa'', h_fileName = Some ''out.bin'',
                                 h_fileSize = None, h_fileHash = None,
                                 h_pieceSize = Some 65536, h_port = 6882\<rparr>),
              Write 1 (Handshake \<lparr>h_id = ''00000000000000aa'', h_fileName = Some ''f.bin'',
                                 h_fileSize = Some 4, h_fileHash = Some ''h1'',
                                 h_pieceSize = Some 2, h_port = 6882\<rparr>),
              Write 1 (Peers [\<lparr>a_id = ''ffffffffffffffff'', a_host = ''10.0.0.1'',
                               a_port = 6881\<rparr>]),
              Write 0 (Peers [\<lparr>a_id = ''cccccccccccccccc'', a_host = ''10.0.0.3'',
                               a_port = 6883\<rparr>]),
              Write 0 (Request 0), Write 1 (Have 0), Write 0 (Request 1)]\<rparr>"

text \<open>A seed of the 3-byte file \<open>[7, 8, 9]\<close>, after startup, with \<open>''h1''\<close> for its hash.\<close>

definition seed_node :: node where
  "seed_node =
     (constructor 6881 ''ffffffffffffffff'' ''f.bin'' True)
       \<lparr>fileSize := Some 3, fileHash := Some ''h1'', pieceSize := Some 3,
        numPieces := Some (Num 1), havePieces := [0],
        fileManager := \<lparr>m_pieceSize = 3, m_fileHandle = Some [7, 8, 9],
                        m_fileSize = Some 3, m_mode = ModeR\<rparr>\<rparr>"

text \<open>The seed as constructed: the file is there, its hash is not yet computed.\<close>

definition seed_new :: node where
  "seed_new = constructor 6881 ''ffffffffffffffff'' ''f.bin'' True"

text \<open>The seed after the leecher connected to it and sent its handshake.\<close>

definition leecher_hs :: handshake where
  "leecher_hs = \<lparr>h_id = ''00000000000000aa'', h_fileName = Some ''out.bin'', h_fileSize = None,
                 h_fileHash = None, h_pieceSize = Some 65536, h_port = 6882\<rparr>"

definition seed_with_peer :: node where
  "seed_with_peer =
     seed_node\<lparr>knownPeers :=
       [(''00000000000000aa'',
         \<lparr>p_id = ''00000000000000aa'', p_host = ''10.0.0.2'', p_port = 6882,
          p_socket = Some 0, p_availablePieces = [], p_busy = False,
          p_handshakeSent = True, p_handshakeReceived = True\<rparr>)],
       sockets := (\<lambda>k. no_sock)
         (0 := \<lparr>peerId = Some ''00000000000000aa'', isOutgoing = False,
                remoteAddress = ''10.0.0.2''\<rparr>),
       io := [Write 0 (Handshake \<lparr>h_id = ''ffffffffffffffff'', h_fileName = Some ''f.bin'',
                                 h_fileSize = Some 3, h_fileHash = Some ''h1'',
                                 h_pieceSize = Some 3, h_port = 6881\<rparr>),
              Write 0 (Bitfield [0])]\<rparr>"

section \<open>Unfolding the model on concrete states\<close>

lemmas model_defs =
  step_def state_of_def handleMessage_def onAccept_def onConnect_def onClose_def
  sendHandshake_def sendBitfield_def sendRequest_def known_peerId_def map_has_def
  handleHandshake_def upsert_peer_def drop_peer_def adopt_metadata_def handshake_reply_def
  otherPeers_def announce_peer_def new_peer_def or_null_str_def or_null_num_def
  truthy_str_def num_def ceil_div_def fill_set_def set_max_def set_add_def set_delete_def new_Set_def
  setSize_def fh_truncate_def writePiece_def readPiece_def fh_read_def
  handleBitfield_def handleRequest_def handlePiece_def piece_received_def piece_finish_def
  have_broadcast_def handleHave_def handlePeers_def discover_peer_def
  scheduleRequests_def schedule_peer_def shouldInitiateConnection_def
  constructor_def startup_def openFile_def no_sock_def map_delete_def Let_def upt_rec

section \<open>The initiate rule\<close>

lemma str_less_total: "a \<noteq> b \<Longrightarrow> str_less a b \<noteq> str_less b a"
proof (induction a b rule: str_less.induct)
  case (4 x xs y ys)
  show ?case
  proof (cases "x = y")
    case True
    with 4 show ?thesis by auto
  next
    case False
    then have "(of_char x :: nat) \<noteq> of_char y" by simp
    then show ?thesis by auto
  qed
qed auto

text \<open>
  Claim C5. For two distinct, non-empty peer ids \<open>a\<close> and \<open>b\<close> (the 16-character
  hexadecimal ids among them), exactly one of the two nodes decides to dial the other:
  the decision of the node with id \<open>a\<close> about \<open>b\<close> and the decision of the node with
  id \<open>b\<close> about \<open>a\<close> differ.
\<close>

theorem shouldInitiate_exactly_one:
  assumes "a \<noteq> b" and "a \<noteq> []" and "b \<noteq> []"
  shows "shouldInitiateConnection a b \<noteq> shouldInitiateConnection b a"
  using assms str_less_total [of b a] by (auto simp: shouldInitiateConnection_def)

theorem shouldInitiate_exactly_one_witness:
  "shouldInitiateConnection ''ffffffffffffffff'' ''0000000000000000''
   \<and> \<not> shouldInitiateConnection ''0000000000000000'' ''ffffffffffffffff''"
  using shouldInitiate_exactly_one [of "''ffffffffffffffff''" "''0000000000000000''"]
  by (simp add: shouldInitiateConnection_def)

section \<open>Reading a piece\<close>

lemma length_fh_read: "length (fh_read content len offset) = len"
  by (simp add: fh_read_def Let_def)

lemma fh_read_exact:
  "offset + len \<le> length content \<Longrightarrow> fh_read content len offset = take len (drop offset content)"
  by (simp add: fh_read_def Let_def)

lemma in_range_iff:
  assumes "0 < (ps::nat)"
  shows "index < (fsz + ps - 1) div ps \<longleftrightarrow> index * ps < fsz"
proof
  assume "index < (fsz + ps - 1) div ps"
  then have "Suc index \<le> (fsz + ps - 1) div ps" by simp
  then have "Suc index * ps \<le> fsz + ps - 1"
    using assms by (simp add: less_eq_div_iff_mult_less_eq)
  then show "index * ps < fsz" using assms by simp
next
  assume "index * ps < fsz"
  then have "Suc index * ps \<le> fsz + ps - 1" using assms by simp
  then have "Suc index \<le> (fsz + ps - 1) div ps"
    using assms by (simp add: less_eq_div_iff_mult_less_eq)
  then show "index < (fsz + ps - 1) div ps" by simp
qed

lemma last_piece_length:
  assumes ps: "0 < (ps::nat)" and n: "n = (fsz + ps - 1) div ps" and pos: "0 < fsz"
  shows "(n - 1) * ps < fsz" and "min ps (fsz - (n - 1) * ps) = fsz - (n - 1) * ps"
proof -
  have "\<not> n * ps < fsz" using in_range_iff [OF ps, of n fsz] n by simp
  then have up: "fsz \<le> n * ps" by simp
  have "0 < n" using up pos by (cases n) auto
  then have "n - 1 < (fsz + ps - 1) div ps" using n by simp
  then show lo: "(n - 1) * ps < fsz" using in_range_iff [OF ps, of "n - 1" fsz] by simp
  have "n * ps = (n - 1) * ps + ps" using \<open>0 < n\<close> by (cases n) auto
  then show "min ps (fsz - (n - 1) * ps) = fsz - (n - 1) * ps" using up lo by simp
qed

lemma readPiece_in_range:
  assumes sz: "m_fileSize m = Some fsz" and off: "index * m_pieceSize m < fsz"
  shows "readPiece m index =
           (case m_fileHandle m of
              None \<Rightarrow> Inl TypeError
            | Some content \<Rightarrow>
                Inr (fh_read content (min (m_pieceSize m) (fsz - index * m_pieceSize m))
                       (index * m_pieceSize m)))"
proof -
  define ps where "ps = m_pieceSize m"
  have ioff: "int index * int ps = int (index * ps)" by simp
  have no: "nat (int index * int ps) = index * ps" by (simp only: ioff nat_int)
  show ?thesis
  proof (cases "fsz < index * ps + ps")
    case True
    then have c: "int index * int ps + int ps > int fsz"
      unfolding ioff by linarith
    have off': "index * ps < fsz" using off by (simp add: ps_def)
    have d: "int fsz - int index * int ps = int (fsz - index * ps)"
      unfolding ioff using off' by (simp add: of_nat_diff)
    have "nat (int fsz - int index * int ps) = fsz - index * ps"
      by (simp only: d nat_int)
    moreover have "min ps (fsz - index * ps) = fsz - index * ps"
      using True off' by linarith
    ultimately have l: "nat (int fsz - int index * int ps) = min ps (fsz - index * ps)"
      by (simp only:)
    have nn: "\<not> int fsz - int index * int ps < 0"
      by (simp only: d)
    show ?thesis
      unfolding readPiece_def Let_def sz num_def
      using c l nn no by (simp add: ps_def split: option.splits)
  next
    case False
    then have c: "\<not> int index * int ps + int ps > int fsz"
      unfolding ioff by linarith
    have l: "ps = min ps (fsz - index * ps)"
      using False by (simp add: min_def)
    show ?thesis
      unfolding readPiece_def Let_def sz num_def
      using c l no by (simp add: ps_def split: option.splits)
  qed
qed

lemma readPiece_past_end:
  assumes sz: "m_fileSize m = Some fsz" and off: "fsz < index * m_pieceSize m"
  shows "readPiece m index = Inl RangeError"
proof -
  have "int fsz < int index * int (m_pieceSize m)"
    using off by (simp flip: of_nat_mult)
  then show ?thesis
    unfolding readPiece_def Let_def by (simp add: sz num_def)
qed

lemma readPiece_at_end:
  assumes sz: "m_fileSize m = Some fsz" and off: "index * m_pieceSize m = fsz"
    and h: "m_fileHandle m = Some content"
  shows "readPiece m index = Inr []"
proof -
  have "int index * int (m_pieceSize m) = int fsz"
    using off by (simp flip: of_nat_mult)
  then show ?thesis
    unfolding readPiece_def Let_def by (simp add: sz num_def h fh_read_def)
qed

lemma readPiece_not_open:
  assumes "m_fileHandle m = None"
  shows "isl (readPiece m index)"
  unfolding readPiece_def Let_def using assms by simp

text \<open>
  Claim C4, as the claim states it, fails: \<^verbatim>\<open>readPiece\<close> has no check of the index.
  On an open file of 4 bytes with pieces of 2 bytes there are 2 pieces, and
  \<^verbatim>\<open>readPiece(2)\<close> does not fail: it returns an empty buffer.
\<close>

theorem readPiece_out_of_range_counterexample:
  "ceil_div (m_fileSize four_bytes) (Some (m_pieceSize four_bytes)) = Num 2
   \<and> m_fileHandle four_bytes \<noteq> None
   \<and> readPiece four_bytes 2 = Inr []"
  by (simp add: four_bytes_def ceil_div_def num_def readPiece_def fh_read_def)

text \<open>
  Claim C4, amended. On a manager whose file size is \<open>fsz\<close>: for an open file and an
  index below the number of pieces, \<^verbatim>\<open>readPiece\<close> returns a buffer of
  \<open>min pieceSize (fsz - index * pieceSize)\<close> bytes read at offset \<open>index * pieceSize\<close>
  (exactly the bytes of the file there when the file has \<open>fsz\<close> bytes), and the last
  piece has \<open>fsz - (numPieces - 1) * pieceSize\<close> bytes. \<^verbatim>\<open>readPiece\<close> fails when the
  file is not open and when \<open>index * pieceSize\<close> is beyond \<open>fsz\<close>; when
  \<open>index * pieceSize\<close> is \<open>fsz\<close> itself it returns an empty buffer.
\<close>

theorem readPiece_amended:
  assumes sz: "m_fileSize m = Some fsz"
  shows "(\<forall>n content.
            ceil_div (Some fsz) (Some (m_pieceSize m)) = Num n \<and> index < n
              \<and> m_fileHandle m = Some content \<longrightarrow>
            (\<exists>buf. readPiece m index = Inr buf
               \<and> length buf = min (m_pieceSize m) (fsz - index * m_pieceSize m)
               \<and> buf = fh_read content (length buf) (index * m_pieceSize m)
               \<and> (length content = fsz \<longrightarrow>
                    buf = take (length buf) (drop (index * m_pieceSize m) content))
               \<and> (index = n - 1 \<longrightarrow> length buf = fsz - (n - 1) * m_pieceSize m)))
       \<and> (m_fileHandle m = None \<longrightarrow> isl (readPiece m index))
       \<and> (fsz < index * m_pieceSize m \<longrightarrow> readPiece m index = Inl RangeError)
       \<and> (index * m_pieceSize m = fsz \<and> m_fileHandle m \<noteq> None \<longrightarrow> readPiece m index = Inr [])"
proof (intro conjI allI impI)
  fix n content
  assume a: "ceil_div (Some fsz) (Some (m_pieceSize m)) = Num n \<and> index < n
               \<and> m_fileHandle m = Some content"
  define ps where "ps = m_pieceSize m"
  from a have ps: "0 < ps" and n: "n = (fsz + ps - 1) div ps"
    by (auto simp: ceil_div_def num_def ps_def split: if_splits)
  from a n have off: "index * ps < fsz" using in_range_iff [OF ps] by simp
  then have pos: "0 < fsz" by simp
  define buf where "buf = fh_read content (min ps (fsz - index * ps)) (index * ps)"
  have r: "readPiece m index = Inr buf"
    using readPiece_in_range [OF sz, of index] off a by (simp add: ps_def buf_def)
  have len: "length buf = min ps (fsz - index * ps)"
    by (simp add: buf_def length_fh_read)
  have b: "buf = fh_read content (length buf) (index * ps)"
    by (simp only: len) (simp add: buf_def)
  have ex: "length content = fsz \<longrightarrow> buf = take (length buf) (drop (index * ps) content)"
  proof
    assume "length content = fsz"
    then have "index * ps + min ps (fsz - index * ps) \<le> length content"
      using off by simp
    then show "buf = take (length buf) (drop (index * ps) content)"
      by (simp only: len) (simp add: buf_def fh_read_exact)
  qed
  have lastp: "index = n - 1 \<longrightarrow> length buf = fsz - (n - 1) * ps"
    using last_piece_length(2) [OF ps n pos] len by simp
  show "\<exists>buf. readPiece m index = Inr buf
          \<and> length buf = min (m_pieceSize m) (fsz - index * m_pieceSize m)
          \<and> buf = fh_read content (length buf) (index * m_pieceSize m)
          \<and> (length content = fsz \<longrightarrow>
               buf = take (length buf) (drop (index * m_pieceSize m) content))
          \<and> (index = n - 1 \<longrightarrow> length buf = fsz - (n - 1) * m_pieceSize m)"
    using r len b ex lastp unfolding ps_def by blast
next
  assume "m_fileHandle m = None"
  then show "isl (readPiece m index)" by (rule readPiece_not_open)
next
  assume "fsz < index * m_pieceSize m"
  then show "readPiece m index = Inl RangeError" by (rule readPiece_past_end [OF sz])
next
  assume "index * m_pieceSize m = fsz \<and> m_fileHandle m \<noteq> None"
  then show "readPiece m index = Inr []" using readPiece_at_end [OF sz] by auto
qed

theorem readPiece_amended_witness:
  "readPiece five_bytes 2 = Inr [5]
   \<and> readPiece five_bytes 1 = Inr [3, 4]
   \<and> readPiece five_bytes 3 = Inl RangeError
   \<and> isl (readPiece (five_bytes\<lparr>m_fileHandle := None\<rparr>) 0)
   \<and> readPiece four_bytes 2 = Inr []"
  using readPiece_amended [of five_bytes 5 2] readPiece_amended [of five_bytes 5 1]
    readPiece_amended [of five_bytes 5 3]
    readPiece_amended [of "five_bytes\<lparr>m_fileHandle := None\<rparr>" 5 0]
    readPiece_amended [of four_bytes 4 2]
  by (simp add: five_bytes_def four_bytes_def ceil_div_def num_def fh_read_def readPiece_def)

section \<open>The example states are states of a run\<close>

lemma replicate_numeral_unfold: "replicate (numeral n) x = x # replicate (pred_numeral n) x"
  by (simp add: numeral_eq_Suc)

lemma leecher_open_startup: "startup sha1 leecher_new None = Returns leecher_open"
  by (simp add: leecher_new_def leecher_open_def model_defs)

lemma seed_node_startup:
  "startup (\<lambda>b. ''h1'') (constructor 6881 ''ffffffffffffffff'' ''f.bin'' True) (Some [7, 8, 9])
   = Returns seed_node"
  by (simp add: seed_node_def model_defs)

lemma downloading_run: "run leecher_open download_events = Some downloading"
  by (simp add: leecher_new_def leecher_open_def download_events_def seed_hs_def downloading_def
        model_defs fh_write_def replicate_numeral_unfold)

lemma two_peers_run: "run leecher_open two_peer_events = Some two_peers"
  by (simp add: leecher_new_def leecher_open_def two_peer_events_def seed_hs_def downloading_def
        two_peers_def model_defs fh_write_def replicate_numeral_unfold)

lemma run_reachable:
  assumes "reachable sha1 s" and "run s es = Some s'"
  shows "reachable sha1 s'"
  using assms
proof (induction es arbitrary: s)
  case Nil
  then show ?case by simp
next
  case (Cons e es)
  then obtain s1 where s1: "state_of (step s e) = Some s1" and rest: "run s1 es = Some s'"
    by (auto split: option.splits)
  have "reachable sha1 s1"
    using Cons.prems(1) s1 by (rule reachable.r_step)
  then show ?case using rest by (rule Cons.IH)
qed

lemma leecher_open_reachable: "reachable sha1 leecher_open"
proof -
  have "state_of (startup sha1 (constructor 6882 ''00000000000000aa'' ''out.bin'' False) None)
          = Some leecher_open"
    using leecher_open_startup [of sha1] by (simp add: leecher_new_def state_of_def)
  then show ?thesis by (rule reachable.r_open)
qed

lemma downloading_reachable: "reachable sha1 downloading"
  using leecher_open_reachable downloading_run by (rule run_reachable)

lemma two_peers_reachable: "reachable sha1 two_peers"
  using leecher_open_reachable two_peers_run by (rule run_reachable)

lemma seed_with_peer_run:
  "run seed_node [Accepted 0 ''10.0.0.2'', Received 0 50 (Handshake leecher_hs)]
   = Some seed_with_peer"
  by (simp add: seed_node_def seed_with_peer_def leecher_hs_def model_defs)

lemma seed_node_reachable: "reachable (\<lambda>b. ''h1'') seed_node"
proof -
  have "state_of (startup (\<lambda>b. ''h1'') (constructor 6881 ''ffffffffffffffff'' ''f.bin'' True)
                    (Some [7, 8, 9])) = Some seed_node"
    using seed_node_startup by (simp add: state_of_def)
  then show ?thesis by (rule reachable.r_open)
qed

section \<open>Sets, maps and loops\<close>

lemma foldl_preserves:
  assumes "\<And>s x. P s \<Longrightarrow> P (f s x)" and "P s"
  shows "P (foldl f s xs)"
  using assms(2) by (induction xs arbitrary: s) (auto intro: assms(1))

lemma set_set_add [simp]: "set (set_add xs x) = insert x (set xs)"
  by (auto simp: set_add_def)

lemma set_set_delete [simp]: "set (set_delete xs x) = set xs - {x}"
  by (auto simp: set_delete_def)

lemma set_foldl_set_add: "set (foldl set_add xs ys) = set xs \<union> set ys"
  by (induction ys arbitrary: xs) auto

lemma add_all_superset: "set xs \<subseteq> set (fst (add_all xs ys))"
proof (induction ys arbitrary: xs)
  case Nil
  show ?case by simp
next
  case (Cons i ys)
  show ?case using Cons.IH [of xs] Cons.IH [of "xs @ [i]"] by auto
qed


lemma fill_set_superset: "set xs \<subseteq> set (fst (fill_set xs n))"
  by (cases n) (simp_all add: fill_set_def add_all_superset)

lemma map_delete_modify: "map_delete (map_modify m k f) k = map_delete m k"
  by (induction m k f rule: map_modify.induct) (auto simp: map_delete_def)

lemma map_delete_set: "map_delete (map_set m k v) k = map_delete m k"
  by (induction m k v rule: map_set.induct) (auto simp: map_delete_def)

lemma map_has_delete: "\<not> map_has (map_delete m k) k"
  by (induction m) (auto simp: map_delete_def map_has_def)

lemma map_of_delete_other: "k' \<noteq> k \<Longrightarrow> map_of (map_delete m k) k' = map_of m k'"
  by (induction m) (auto simp: map_delete_def)

lemma map_of_modify:
  "map_of (map_modify m k f) k' = (if k' = k then map_option f (map_of m k) else map_of m k')"
  by (induction m k f rule: map_modify.induct) auto

lemma map_has_modify [simp]: "map_has (map_modify m k f) k' = map_has m k'"
  by (simp add: map_has_def map_of_modify)

lemma map_modify_map:
  assumes "\<And>k' v. F (k', g v) = F (k', v)"
  shows "map F (map_modify m k g) = map F m"
  by (induction m) (auto simp: assms)

lemma truthy_or_null [simp]: "truthy_str (or_null_str v) = truthy_str v"
  by (simp add: or_null_str_def truthy_str_def)

lemma or_null_truthy: "truthy_str v \<Longrightarrow> or_null_str v = v"
  by (simp add: or_null_str_def)

section \<open>Messages from a connection without a handshake\<close>

text \<open>
  Claim C9. A \<^verbatim>\<open>bitfield\<close> or \<^verbatim>\<open>have\<close> message on a socket that has no peer id, or
  whose peer id is not a key of the known-peers map, leaves the whole state as it was:
  no peer record and no piece set changes, nothing is written and no connection is
  closed (the output is part of the state).
\<close>

theorem unknown_sender_ignored:
  assumes "\<forall>pid. peerId (sockets s k) = Some pid \<longrightarrow> \<not> map_has (knownPeers s) pid"
  shows "handleBitfield s k pieces = s \<and> handleHave s k index = s
         \<and> handleMessage s k now (Bitfield pieces) = Returns s
         \<and> handleMessage s k now (Have index) = Returns s"
proof -
  have "known_peerId (knownPeers s) (sockets s k) = None"
    using assms by (auto simp: known_peerId_def split: option.splits)
  then show ?thesis
    by (simp add: handleBitfield_def handleHave_def handleMessage_def)
qed

theorem unknown_sender_ignored_witness:
  "peerId (sockets downloading 5) = None
   \<and> handleBitfield downloading 5 [0, 1] = downloading
   \<and> handleHave downloading 5 1 = downloading
   \<and> \<not> map_has (knownPeers leecher_open) ''ffffffffffffffff''
   \<and> handleHave (leecher_open\<lparr>sockets := (sockets leecher_open)
          (0 := \<lparr>peerId = Some ''ffffffffffffffff'', isOutgoing = True,
                 remoteAddress = ''10.0.0.1''\<rparr>)\<rparr>) 0 1
       = leecher_open\<lparr>sockets := (sockets leecher_open)
          (0 := \<lparr>peerId = Some ''ffffffffffffffff'', isOutgoing = True,
                 remoteAddress = ''10.0.0.1''\<rparr>)\<rparr>"
  using unknown_sender_ignored [of downloading 5 "[0, 1]" 1 0]
    unknown_sender_ignored [of "leecher_open\<lparr>sockets := (sockets leecher_open)
          (0 := \<lparr>peerId = Some ''ffffffffffffffff'', isOutgoing = True,
                 remoteAddress = ''10.0.0.1''\<rparr>)\<rparr>" 0 "[]" 1 0]
  by (simp add: downloading_def leecher_open_def leecher_new_def constructor_def no_sock_def
        map_has_def)

section \<open>A handshake with the node's own id\<close>

text \<open>
  Claim C2, as the claim states it, fails: a handshake whose id is the node's own does
  not close the connection. The leecher with its file open gets such a handshake on
  socket 0: the handler returns the state as it was, and no \<^verbatim>\<open>socket.end()\<close> on
  socket 0 is among its actions.
\<close>

theorem self_handshake_counterexample:
  "h_id (seed_hs\<lparr>h_id := ''00000000000000aa''\<rparr>) = nid leecher_open
   \<and> handleHandshake leecher_open 0 0 (seed_hs\<lparr>h_id := ''00000000000000aa''\<rparr>)
       = Returns leecher_open
   \<and> End 0 \<notin> set (io leecher_open)"
  by (simp add: handleHandshake_def seed_hs_def leecher_open_def leecher_new_def
        constructor_def)

text \<open>
  Claim C2, amended. A handshake whose id is the node's own id is ignored: the handler
  returns at once with the state unchanged, so the known peers, the piece sets and the
  metadata are as before, no peer record is made or removed, and the connection is
  left open.
\<close>

theorem self_handshake_ignored:
  assumes "h_id message = nid s"
  shows "handleHandshake s k now message = Returns s"
  using assms by (simp add: handleHandshake_def Let_def)

theorem self_handshake_ignored_witness:
  "handleHandshake downloading 1 7 (other_hs\<lparr>h_id := ''00000000000000aa''\<rparr>)
   = Returns downloading"
  using self_handshake_ignored [of "other_hs\<lparr>h_id := ''00000000000000aa''\<rparr>" downloading 1 7]
  by (simp add: downloading_def)

section \<open>A handshake for another file, at a seed\<close>

text \<open>
  Claim C7, as the claim states it, fails: the seed as constructed has no hash of its
  own yet, and a handshake with a hash, which differs from none, is not rejected. The
  record of the peer is kept and the connection is not ended.
\<close>

theorem unhashed_seed_counterexample:
  "isSeed seed_new \<and> fileHash seed_new = None \<and> h_fileHash other_hs = Some ''h2''
   \<and> map_option (\<lambda>s. (map fst (knownPeers s), End 0 \<in> set (io s)))
        (state_of (handleHandshake seed_new 0 9 other_hs))
       = Some ([''cccccccccccccccc''], False)"
  by (simp add: seed_new_def other_hs_def model_defs)

text \<open>
  Claim C7, amended. A seed whose own file hash is set and that gets, from another id,
  a handshake with a non-empty hash different from its own ends the connection and
  deletes the record under the remote id, and that record only: afterwards the
  known-peers map has no such key, and every other key has the record it had. Of the
  node's state nothing else changes; the socket of the connection keeps the remote id
  it was given.
\<close>

theorem wrong_file_rejected:
  assumes "isSeed s" and "h_id message \<noteq> nid s"
    and "truthy_str (fileHash s)" and "truthy_str (h_fileHash message)"
    and "h_fileHash message \<noteq> fileHash s"
  shows "handleHandshake s k now message =
           Returns (s\<lparr>knownPeers := filter (\<lambda>kv. fst kv \<noteq> h_id message) (knownPeers s),
                      sockets := (sockets s)(k := (sockets s k)\<lparr>peerId := Some (h_id message)\<rparr>),
                      io := io s @ [End k]\<rparr>)
         \<and> map_of (filter (\<lambda>kv. fst kv \<noteq> h_id message) (knownPeers s)) (h_id message) = None
         \<and> (\<forall>pid. pid \<noteq> h_id message \<longrightarrow>
               map_of (filter (\<lambda>kv. fst kv \<noteq> h_id message) (knownPeers s)) pid
               = map_of (knownPeers s) pid)"
proof -
  have "handleHandshake s k now message =
           Returns (s\<lparr>knownPeers := map_delete (knownPeers s) (h_id message),
                      sockets := (sockets s)(k := (sockets s k)\<lparr>peerId := Some (h_id message)\<rparr>),
                      io := io s @ [End k]\<rparr>)"
    using assms
    by (simp add: handleHandshake_def Let_def upsert_peer_def drop_peer_def or_null_truthy
          map_delete_modify map_delete_set)
  moreover have "map_of (map_delete (knownPeers s) (h_id message)) (h_id message) = None"
    using map_has_delete [of "knownPeers s" "h_id message"] by (simp add: map_has_def)
  moreover have "\<forall>pid. pid \<noteq> h_id message \<longrightarrow>
      map_of (map_delete (knownPeers s) (h_id message)) pid = map_of (knownPeers s) pid"
    by (simp add: map_of_delete_other)
  ultimately show ?thesis unfolding map_delete_def by simp
qed

theorem wrong_file_rejected_witness:
  "isSeed seed_with_peer \<and> fileHash seed_with_peer = Some ''h1''
   \<and> h_fileHash other_hs = Some ''h2''
   \<and> map fst (knownPeers seed_with_peer) = [''00000000000000aa'']
   \<and> handleHandshake (onAccept seed_with_peer 1 ''10.0.0.3'') 1 9 other_hs =
        Returns (seed_with_peer\<lparr>
                   sockets := (sockets seed_with_peer)
                     (1 := \<lparr>peerId = Some ''cccccccccccccccc'', isOutgoing = False,
                            remoteAddress = ''10.0.0.3''\<rparr>),
                   io := io seed_with_peer @ [End 1]\<rparr>)"
  using wrong_file_rejected [of "onAccept seed_with_peer 1 ''10.0.0.3''" other_hs 1 9]
  by (simp add: seed_with_peer_def seed_node_def other_hs_def constructor_def no_sock_def
        truthy_str_def onAccept_def)

section \<open>Adopting the metadata of a handshake\<close>

lemma sendHandshake_meta: "meta_frame s (sendHandshake s k)"
  by (simp add: meta_frame_def sendHandshake_def Let_def split: option.splits)

lemma upsert_peer_meta: "meta_frame s (upsert_peer s k remoteId remotePort)"
  by (simp add: meta_frame_def upsert_peer_def Let_def)

lemma drop_peer_meta: "meta_frame s (drop_peer s k remoteId)"
  by (simp add: meta_frame_def drop_peer_def)

lemma handshake_reply_meta: "meta_frame s (handshake_reply s k remoteId remotePort)"
  using sendHandshake_meta [of s k]
  by (simp add: meta_frame_def handshake_reply_def Let_def sendBitfield_def)

lemma meta_frame_trans: "meta_frame s t \<Longrightarrow> meta_frame t u \<Longrightarrow> meta_frame s u"
  by (simp add: meta_frame_def)

lemma handshake_no_adoption:
  assumes "h_id message \<noteq> nid s" and "isSeed s \<or> \<not> truthy_str (h_fileHash message)"
  shows "\<exists>s'. handleHandshake s k now message = Returns s' \<and> meta_frame s s'"
proof -
  let ?s1 = "upsert_peer s k (h_id message) (h_port message)"
  have m1: "meta_frame s ?s1" by (rule upsert_peer_meta)
  then have seed: "isSeed ?s1 = isSeed s" by (simp add: meta_frame_def)
  have d: "meta_frame s (drop_peer ?s1 k (h_id message))"
    using m1 drop_peer_meta by (rule meta_frame_trans)
  have r: "meta_frame s (handshake_reply ?s1 k (h_id message) (h_port message))"
    using m1 handshake_reply_meta by (rule meta_frame_trans)
  show ?thesis
    using assms d r
    by (auto simp: handleHandshake_def Let_def seed)
qed

lemma handshake_adopts:
  assumes id: "h_id message \<noteq> nid s" and leech: "\<not> isSeed s"
    and hash: "truthy_str (h_fileHash message)"
  shows "\<exists>s'. state_of (handleHandshake s k now message) = Some s'
       \<and> fileName s' = or_null_str (h_fileName message)
       \<and> fileSize s' = or_null_num (h_fileSize message)
       \<and> fileHash s' = h_fileHash message
       \<and> pieceSize s' = or_null_num (h_pieceSize message)
       \<and> numPieces s' = Some (ceil_div (fileSize s') (pieceSize s'))
       \<and> missingPieces s'
           = fst (fill_set (missingPieces s) (ceil_div (fileSize s') (pieceSize s')))
       \<and> pendingPieces s' = pendingPieces s
       \<and> (snd (fill_set (missingPieces s) (ceil_div (fileSize s') (pieceSize s'))) \<longrightarrow>
            handleHandshake s k now message = Throws s'
            \<and> havePieces s' = havePieces s \<and> fileManager s' = fileManager s)
       \<and> (\<not> snd (fill_set (missingPieces s) (ceil_div (fileSize s') (pieceSize s'))) \<longrightarrow>
            havePieces s' = []
            \<and> fileManager s' = fst (setSize (fileManager s) (fileSize s')))"
proof -
  let ?s1 = "upsert_peer s k (h_id message) (h_port message)"
  have m1: "meta_frame s ?s1" by (rule upsert_peer_meta)
  have a: "handleHandshake s k now message = adopt_metadata ?s1 k now message"
    using id leech hash m1 by (simp add: handleHandshake_def Let_def meta_frame_def)
  let ?n = "ceil_div (or_null_num (h_fileSize message)) (or_null_num (h_pieceSize message))"
  let ?f = "fill_set (missingPieces s) ?n"
  let ?s2 = "?s1\<lparr>fileName := or_null_str (h_fileName message),
                 fileSize := or_null_num (h_fileSize message),
                 fileHash := or_null_str (h_fileHash message),
                 pieceSize := or_null_num (h_pieceSize message),
                 numPieces := Some ?n,
                 missingPieces := fst ?f\<rparr>"
  have ms: "missingPieces ?s1 = missingPieces s" using m1 by (simp add: meta_frame_def)
  show ?thesis
  proof (cases "snd ?f")
    case True
    then have r: "handleHandshake s k now message = Throws ?s2"
      unfolding a adopt_metadata_def Let_def by (simp add: ms)
    show ?thesis
      apply (rule exI [of _ ?s2])
      using True m1 hash by (simp add: r state_of_def meta_frame_def or_null_truthy)
  next
    case False
    let ?s3 = "?s2\<lparr>havePieces := []\<rparr>"
    let ?s4 = "?s3\<lparr>fileManager := fst (setSize (fileManager ?s3) (fileSize ?s3))\<rparr>"
    let ?s5 = "handshake_reply (?s4\<lparr>startTime := Some now, progressInterval := True\<rparr>)
                 k (h_id message) (h_port message)"
    have cases: "state_of (handleHandshake s k now message) = Some ?s4
                 \<or> state_of (handleHandshake s k now message) = Some ?s5"
      using False unfolding a adopt_metadata_def Let_def state_of_def
      by (auto simp: ms split: option.splits)
    have m5: "meta_frame (?s4\<lparr>startTime := Some now, progressInterval := True\<rparr>) ?s5"
      by (rule handshake_reply_meta)
    have m4: "meta_frame ?s4 (?s4\<lparr>startTime := Some now, progressInterval := True\<rparr>)"
      by (simp add: meta_frame_def)
    have m45: "meta_frame ?s4 ?s5" by (rule meta_frame_trans [OF m4 m5])
    have ok4: "fileName ?s4 = or_null_str (h_fileName message)
       \<and> fileSize ?s4 = or_null_num (h_fileSize message)
       \<and> fileHash ?s4 = h_fileHash message
       \<and> pieceSize ?s4 = or_null_num (h_pieceSize message)
       \<and> numPieces ?s4 = Some ?n \<and> missingPieces ?s4 = fst ?f
       \<and> pendingPieces ?s4 = pendingPieces s \<and> havePieces ?s4 = []
       \<and> fileManager ?s4 = fst (setSize (fileManager s) (or_null_num (h_fileSize message)))"
      using m1 hash by (simp add: meta_frame_def or_null_truthy)
    from cases show ?thesis
    proof
      assume "state_of (handleHandshake s k now message) = Some ?s4"
      then show ?thesis
        apply (intro exI [of _ ?s4])
        using ok4 False by simp
    next
      assume e: "state_of (handleHandshake s k now message) = Some ?s5"
      have ok5: "fileName ?s5 = or_null_str (h_fileName message)
         \<and> fileSize ?s5 = or_null_num (h_fileSize message)
         \<and> fileHash ?s5 = h_fileHash message
         \<and> pieceSize ?s5 = or_null_num (h_pieceSize message)
         \<and> numPieces ?s5 = Some ?n \<and> missingPieces ?s5 = fst ?f
         \<and> pendingPieces ?s5 = pendingPieces s \<and> havePieces ?s5 = []
         \<and> fileManager ?s5 = fst (setSize (fileManager s) (or_null_num (h_fileSize message)))"
        using ok4 m45 unfolding meta_frame_def by metis
      show ?thesis
        apply (intro exI [of _ ?s5])
        using ok5 False e by simp
    qed
  qed
qed




section \<open>What the scheduler changes\<close>

lemma sched_frame_refl: "sched_frame s s"
  by (simp add: sched_frame_def)

lemma sendRequest_frame:
  assumes "sched_frame s t" and "index \<in> set (missingPieces t)"
  shows "sched_frame s (sendRequest t socket index)"
  using assms
  by (auto simp: sched_frame_def sendRequest_def Let_def split: option.splits)

lemma schedule_peer_frame:
  assumes "sched_frame s t"
  shows "sched_frame s (schedule_peer t pid)"
proof -
  have "\<And>i xs. find (\<lambda>i. i \<in> set (missingPieces t) \<and> i \<notin> set (pendingPieces t)) xs = Some i
          \<Longrightarrow> i \<in> set (missingPieces t)"
    by (auto simp: find_Some_iff)
  then show ?thesis
    using assms
    by (auto simp: schedule_peer_def intro!: sendRequest_frame split: option.splits)
qed

lemma scheduleRequests_frame: "sched_frame s (scheduleRequests s)"
  unfolding scheduleRequests_def
  by (auto intro!: foldl_preserves [where P = "sched_frame s"] schedule_peer_frame sched_frame_refl)

lemma piece_finish_frame: "sched_frame u (piece_finish u)"
  using scheduleRequests_frame [of u]
  by (simp add: piece_finish_def sched_frame_def)

section \<open>Receiving a piece\<close>

lemma have_broadcast_modify_busy [simp]:
  "have_broadcast (map_modify m pid (\<lambda>p. p\<lparr>p_busy := b\<rparr>)) sender index
   = have_broadcast m sender index"
  unfolding have_broadcast_def by (subst map_modify_map) simp_all

lemma piece_received_sets:
  "havePieces (piece_received s k index d) = set_add (havePieces s) index"
  "missingPieces (piece_received s k index d) = set_delete (missingPieces s) index"
  "pendingPieces (piece_received s k index d) = set_delete (pendingPieces s) index"
  "bytesDownloaded (piece_received s k index d) = Some (num (bytesDownloaded s) + length d)"
  "fileManager (piece_received s k index d) = fileManager s"
  by (simp_all add: piece_received_def Let_def split: option.splits)








section \<open>What a piece message is not checked for\<close>










section \<open>Pending pieces are missing pieces\<close>

lemma sched_frame_inv:
  assumes "pending_inv s" and "sched_frame s t"
  shows "pending_inv t"
  using assms by (auto simp: pending_inv_def sched_frame_def)

lemma meta_frame_inv:
  assumes "pending_inv s" and "meta_frame s t"
  shows "pending_inv t"
  using assms by (simp add: pending_inv_def meta_frame_def)

lemma scheduleRequests_inv: "pending_inv s \<Longrightarrow> pending_inv (scheduleRequests s)"
  by (rule sched_frame_inv [OF _ scheduleRequests_frame])

lemma handleBitfield_inv: "pending_inv s \<Longrightarrow> pending_inv (handleBitfield s k pieces)"
  by (auto simp: handleBitfield_def pending_inv_def
           intro!: scheduleRequests_inv [unfolded pending_inv_def] split: option.splits)

lemma handleHave_inv: "pending_inv s \<Longrightarrow> pending_inv (handleHave s k index)"
  by (auto simp: handleHave_def Let_def pending_inv_def
           intro!: scheduleRequests_inv [unfolded pending_inv_def] split: option.splits)

lemma handleRequest_inv: "pending_inv s \<Longrightarrow> pending_inv (handleRequest s k index)"
  by (auto simp: handleRequest_def pending_inv_def split: sum.splits)

lemma handlePiece_inv:
  assumes "pending_inv s"
  shows "pending_inv (handlePiece s k index d)"
proof (cases "writePiece (fileManager s) index d")
  case (Inl e)
  then show ?thesis using assms by (simp add: handlePiece_def)
next
  case (Inr fm)
  let ?u = "piece_received (s\<lparr>fileManager := fm\<rparr>) k index d"
  have "pending_inv ?u"
    using assms by (auto simp: pending_inv_def piece_received_sets)
  then have "pending_inv (piece_finish ?u)"
    using piece_finish_frame by (rule sched_frame_inv)
  then show ?thesis by (simp add: handlePiece_def Inr)
qed

lemma discover_peer_sets:
  "pendingPieces (discover_peer s a) = pendingPieces s
   \<and> missingPieces (discover_peer s a) = missingPieces s"
  by (simp add: discover_peer_def Let_def)

lemma handlePeers_inv: "pending_inv s \<Longrightarrow> pending_inv (handlePeers s k peersList)"
  unfolding handlePeers_def
  by (rule foldl_preserves [where P = pending_inv])
     (simp_all add: pending_inv_def discover_peer_sets)

lemma onClose_inv: "pending_inv (onClose s k)"
proof -
  let ?s1 = "case known_peerId (knownPeers s) (sockets s k) of
               None \<Rightarrow> s
             | Some pid \<Rightarrow>
                 s\<lparr>knownPeers :=
                     map_modify (knownPeers s) pid (\<lambda>p. p\<lparr>p_socket := None, p_busy := False\<rparr>)\<rparr>"
  have "pending_inv (?s1\<lparr>pendingPieces := []\<rparr>)"
    by (simp add: pending_inv_def)
  then show ?thesis
    unfolding onClose_def Let_def by (rule scheduleRequests_inv)
qed

lemma handleHandshake_inv:
  assumes inv: "pending_inv s" and fin: "state_of (handleHandshake s k now message) = Some s'"
  shows "pending_inv s'"
proof (cases "h_id message = nid s")
  case True
  then show ?thesis using inv fin by (simp add: handleHandshake_def Let_def state_of_def)
next
  case id: False
  show ?thesis
  proof (cases "isSeed s \<or> \<not> truthy_str (h_fileHash message)")
    case True
    then obtain t where "handleHandshake s k now message = Returns t" and "meta_frame s t"
      using handshake_no_adoption [OF id] by blast
    then show ?thesis using inv fin meta_frame_inv by (auto simp: state_of_def)
  next
    case False
    then have l: "\<not> isSeed s" and tr: "truthy_str (h_fileHash message)" by simp_all
    from handshake_adopts [OF id l tr, of k now] fin
    have "missingPieces s' = fst (fill_set (missingPieces s) (ceil_div (fileSize s') (pieceSize s')))"
      and "pendingPieces s' = pendingPieces s"
      by auto
    then have "set (missingPieces s) \<subseteq> set (missingPieces s')"
      and "pendingPieces s' = pendingPieces s"
      using fill_set_superset by simp_all
    then show ?thesis using inv by (auto simp: pending_inv_def)
  qed
qed

lemma step_inv:
  assumes "pending_inv s" and "state_of (step s e) = Some s'"
  shows "pending_inv s'"
proof (cases e)
  case (Accepted k addr)
  then show ?thesis using assms by (auto simp: step_def state_of_def onAccept_def pending_inv_def)
next
  case (Connected k addr)
  then show ?thesis
    using assms sendHandshake_meta
    by (auto simp: step_def state_of_def onConnect_def pending_inv_def meta_frame_def)
next
  case (Received k now msg)
  show ?thesis
  proof (cases msg)
    case (Handshake h)
    then show ?thesis
      using assms Received handleHandshake_inv by (auto simp: step_def handleMessage_def)
  qed (use assms Received handleBitfield_inv handleRequest_inv handlePiece_inv handleHave_inv
        handlePeers_inv in \<open>auto simp: step_def handleMessage_def state_of_def\<close>)
next
  case (Closed k)
  then show ?thesis using assms onClose_inv by (auto simp: step_def state_of_def)
qed

lemma constructor_inv: "pending_inv (constructor prt myId name present)"
  by (simp add: pending_inv_def constructor_def)

lemma startup_inv:
  assumes "pending_inv s" and "state_of (startup sha1 s disk) = Some s'"
  shows "pending_inv s'"
  using assms
  by (auto simp: startup_def Let_def state_of_def pending_inv_def
           split: sum.splits if_splits)

text \<open>
  Claim C3. In every state a node reaches, every pending piece is a missing piece. It
  holds in the constructor's state and after the file opened (both sets are empty), and
  every event keeps it: a socket accepted or connected, a message of any type received
  (the scheduler's requests after \<^verbatim>\<open>bitfield\<close>, \<^verbatim>\<open>have\<close> and \<^verbatim>\<open>piece\<close>
  among them), and a connection closed. Handlers are taken as a whole, one after another.
\<close>

theorem pending_subset_missing:
  assumes "reachable sha1 s"
  shows "set (pendingPieces s) \<subseteq> set (missingPieces s)"
proof -
  have "pending_inv s"
    using assms
  proof (induction rule: reachable.induct)
    case (r_new prt myId name present)
    show ?case by (rule constructor_inv)
  next
    case (r_open prt myId name present disk s)
    then show ?case using constructor_inv startup_inv by blast
  next
    case (r_step s e s')
    then show ?case using step_inv by blast
  qed
  then show ?thesis by (simp add: pending_inv_def)
qed

theorem pending_subset_missing_witness:
  "reachable (\<lambda>b. []) downloading \<and> pendingPieces downloading = [1]
   \<and> set (pendingPieces downloading) \<subseteq> set (missingPieces downloading)"
  using pending_subset_missing [OF downloading_reachable [of "\<lambda>b. []"]] downloading_reachable
  by (simp add: downloading_def)

section \<open>The startup of a seed\<close>

lemma ceil_div_self:
  assumes "0 < (n::nat)"
  shows "(n + n - Suc 0) div n = Suc 0"
proof -
  have "n * Suc 0 \<le> n + n - Suc 0" and "n + n - Suc 0 < n * Suc (Suc 0)"
    using assms by simp_all
  then show ?thesis by (rule div_nat_eqI)
qed

lemma small_seed_startup:
  assumes "0 < length content" and "length content < 65536"
  shows "\<exists>s. startup sha1 (constructor prt myId name True) (Some content) = Returns s
           \<and> pieceSize s = Some (length content)
           \<and> m_pieceSize (fileManager s) = length content
           \<and> numPieces s = Some (Num 1) \<and> havePieces s = [0]"
  using assms
  by (simp add: startup_def constructor_def openFile_def Let_def num_def ceil_div_def
        ceil_div_self fill_set_def set_max_def set_add_def)

text \<open>
  Claim C8 at file size 0. A seed of an empty file sets \<open>pieceSize\<close> to \<open>0\<close> and then
  computes \<^verbatim>\<open>Math.ceil(0 / 0)\<close>: \<open>numPieces\<close> is \<^verbatim>\<open>NaN\<close>, not \<open>1\<close>, and no piece is
  marked as held. For the sizes from 1 to 65535 the lemma above gives \<open>pieceSize\<close> the
  file size and \<open>numPieces\<close> \<open>1\<close>.
\<close>

theorem empty_seed_startup:
  "\<exists>s. startup sha1 (constructor prt myId name True) (Some []) = Returns s
     \<and> fileSize s = Some 0 \<and> pieceSize s = Some 0
     \<and> numPieces s = Some NaN \<and> numPieces s \<noteq> Some (Num 1) \<and> havePieces s = []"
  by (simp add: startup_def constructor_def openFile_def Let_def num_def ceil_div_def
        fill_set_def set_max_def)

end
